theory Spec2Isabelle
  imports Main "HOL-Library.AList"
begin

section \<open>The implementor registry of \<open>trait.Encode.js\<close>\<close>

text \<open>
  The file \<open>src/implementors/parity_scale_codec/codec/trait.Encode.js\<close> is one
  immediately invoked function of five statements:
  \<^verbatim>\<open>
  (function() {var implementors = {};
  implementors["ink_env"] = [ ... ];
  implementors["ink_primitives"] = [ ... ];
  implementors["scale_info"] = [ ... ];
  if (window.register_implementors) {window.register_implementors(implementors);}
  else {window.pending_implementors = implementors;}})()
  \<close>
  Lines 1 to 4 build the object \<open>implementors\<close> (the operation \<open>load\<close> of the
  specification), line 5 hands it over (the operation \<open>publish\<close>).
\<close>

subsection \<open>Data model\<close>

text \<open>
  One element of the arrays of lines 2 to 4: an object literal with the three
  properties \<open>"text"\<close>, \<open>"synthetic"\<close> and \<open>"types"\<close>.
\<close>

record descriptor =
  "text" :: string
  synthetic :: bool
  types :: "string list"

text \<open>
  A JavaScript object with string keys, as an association list in insertion order.
  The assignment \<open>o[k] = v\<close> is \<^const>\<open>AList.update\<close>: it replaces the value of a
  key already present and appends a new key otherwise.
\<close>

type_synonym registry = "(string \<times> descriptor list) list"

subsection \<open>The embedded data\<close>

definition ink_env_0 :: descriptor where
  \<open>ink_env_0 = \<lparr>text = ''impl&lt;T&gt; Encode for <a class="struct" href="ink_env/call/utils/struct.Argument.html" title="struct ink_env::call::utils::Argument">Argument</a>&lt;T&gt; <span class="where fmt-newline">where<br>&nbsp;&nbsp;&nbsp;&nbsp;T: Encode,&nbsp;</span>'',
     synthetic = False, types = [''ink_env::call::execution_input::Argument'']\<rparr>\<close>

definition ink_env_1 :: descriptor where
  \<open>ink_env_1 = \<lparr>text = ''impl Encode for <a class="type" href="ink_env/call/utils/type.EmptyArgumentList.html" title="type ink_env::call::utils::EmptyArgumentList">EmptyArgumentList</a>'',
     synthetic = False, types = [''ink_env::call::execution_input::EmptyArgumentList'']\<rparr>\<close>

definition ink_env_2 :: descriptor where
  \<open>ink_env_2 = \<lparr>text = ''impl&lt;'a, Head, Rest&gt; Encode for <a class="struct" href="ink_env/call/utils/struct.ArgumentList.html" title="struct ink_env::call::utils::ArgumentList">ArgumentList</a>&lt;<a class="struct" href="ink_env/call/utils/struct.Argument.html" title="struct ink_env::call::utils::Argument">Argument</a>&lt;Head&gt;, Rest&gt; <span class="where fmt-newline">where<br>&nbsp;&nbsp;&nbsp;&nbsp;Head: Encode,<br>&nbsp;&nbsp;&nbsp;&nbsp;Rest: Encode,&nbsp;</span>'',
     synthetic = False, types = [''ink_env::call::execution_input::ArgumentList'']\<rparr>\<close>

definition ink_env_3 :: descriptor where
  \<open>ink_env_3 = \<lparr>text = ''impl&lt;Args&gt; Encode for <a class="struct" href="ink_env/call/struct.ExecutionInput.html" title="struct ink_env::call::ExecutionInput">ExecutionInput</a>&lt;Args&gt; <span class="where fmt-newline">where<br>&nbsp;&nbsp;&nbsp;&nbsp;Args: Encode,&nbsp;</span>'',
     synthetic = False, types = [''ink_env::call::execution_input::ExecutionInput'']\<rparr>\<close>

definition ink_env_4 :: descriptor where
  \<open>ink_env_4 = \<lparr>text = ''impl Encode for <a class="struct" href="ink_env/call/struct.Selector.html" title="struct ink_env::call::Selector">Selector</a>'',
     synthetic = False, types = [''ink_env::call::selector::Selector'']\<rparr>\<close>

definition ink_env_5 :: descriptor where
  \<open>ink_env_5 = \<lparr>text = ''impl Encode for <a class="struct" href="ink_env/test/struct.CallData.html" title="struct ink_env::test::CallData">CallData</a>'',
     synthetic = False, types = [''ink_env::engine::off_chain::call_data::CallData'']\<rparr>\<close>

definition ink_env_6 :: descriptor where
  \<open>ink_env_6 = \<lparr>text = ''impl Encode for <a class="struct" href="ink_env/struct.AccountId.html" title="struct ink_env::AccountId">AccountId</a>'',
     synthetic = False, types = [''ink_env::types::AccountId'']\<rparr>\<close>

definition ink_env_7 :: descriptor where
  \<open>ink_env_7 = \<lparr>text = ''impl Encode for <a class="struct" href="ink_env/struct.Hash.html" title="struct ink_env::Hash">Hash</a>'',
     synthetic = False, types = [''ink_env::types::Hash'']\<rparr>\<close>

definition implementors_ink_env :: "descriptor list" where
  "implementors_ink_env =
     [ink_env_0, ink_env_1, ink_env_2, ink_env_3, ink_env_4, ink_env_5, ink_env_6,
      ink_env_7]"

definition ink_primitives_0 :: descriptor where
  \<open>ink_primitives_0 = \<lparr>text = ''impl Encode for <a class="struct" href="ink_primitives/struct.Key.html" title="struct ink_primitives::Key">Key</a>'',
     synthetic = False, types = [''ink_primitives::key::Key'']\<rparr>\<close>

definition implementors_ink_primitives :: "descriptor list" where
  "implementors_ink_primitives =
     [ink_primitives_0]"

definition scale_info_0 :: descriptor where
  \<open>scale_info_0 = \<lparr>text = ''impl&lt;T&gt; Encode for <a class="struct" href="scale_info/interner/struct.UntrackedSymbol.html" title="struct scale_info::interner::UntrackedSymbol">UntrackedSymbol</a>&lt;T&gt; <span class="where fmt-newline">where<br>&nbsp;&nbsp;&nbsp;&nbsp;<a class="struct" href="scale_info/prelude/marker/struct.PhantomData.html" title="struct scale_info::prelude::marker::PhantomData">PhantomData</a>&lt;<a class="primitive" href="https://doc.rust-lang.org/nightly/std/primitive.fn.html">fn</a>() -&gt; T&gt;: Encode,<br>&nbsp;&nbsp;&nbsp;&nbsp;<a class="struct" href="scale_info/prelude/marker/struct.PhantomData.html" title="struct scale_info::prelude::marker::PhantomData">PhantomData</a>&lt;<a class="primitive" href="https://doc.rust-lang.org/nightly/std/primitive.fn.html">fn</a>() -&gt; T&gt;: Encode,&nbsp;</span>'',
     synthetic = False, types = [''scale_info::interner::UntrackedSymbol'']\<rparr>\<close>

definition scale_info_1 :: descriptor where
  \<open>scale_info_1 = \<lparr>text = ''impl Encode for <a class="struct" href="scale_info/struct.PortableRegistry.html" title="struct scale_info::PortableRegistry">PortableRegistry</a>'',
     synthetic = False, types = [''scale_info::registry::PortableRegistry'']\<rparr>\<close>

definition scale_info_2 :: descriptor where
  \<open>scale_info_2 = \<lparr>text = ''impl&lt;T:&nbsp;<a class="trait" href="scale_info/form/trait.Form.html" title="trait scale_info::form::Form">Form</a>&gt; Encode for <a class="struct" href="scale_info/struct.TypeDefComposite.html" title="struct scale_info::TypeDefComposite">TypeDefComposite</a>&lt;T&gt; <span class="where fmt-newline">where<br>&nbsp;&nbsp;&nbsp;&nbsp;<a class="struct" href="scale_info/prelude/vec/struct.Vec.html" title="struct scale_info::prelude::vec::Vec">Vec</a>&lt;<a class="struct" href="scale_info/struct.Field.html" title="struct scale_info::Field">Field</a>&lt;T&gt;&gt;: Encode,<br>&nbsp;&nbsp;&nbsp;&nbsp;<a class="struct" href="scale_info/prelude/vec/struct.Vec.html" title="struct scale_info::prelude::vec::Vec">Vec</a>&lt;<a class="struct" href="scale_info/struct.Field.html" title="struct scale_info::Field">Field</a>&lt;T&gt;&gt;: Encode,&nbsp;</span>'',
     synthetic = False, types = [''scale_info::ty::composite::TypeDefComposite'']\<rparr>\<close>

definition scale_info_3 :: descriptor where
  \<open>scale_info_3 = \<lparr>text = ''impl&lt;T:&nbsp;<a class="trait" href="scale_info/form/trait.Form.html" title="trait scale_info::form::Form">Form</a>&gt; Encode for <a class="struct" href="scale_info/struct.Field.html" title="struct scale_info::Field">Field</a>&lt;T&gt; <span class="where fmt-newline">where<br>&nbsp;&nbsp;&nbsp;&nbsp;<a class="enum" href="https://doc.rust-lang.org/nightly/core/option/enum.Option.html" title="enum core::option::Option">Option</a>&lt;T::<a class="associatedtype" href="scale_info/form/trait.Form.html#associatedtype.String" title="type scale_info::form::Form::String">String</a>&gt;: Encode,<br>&nbsp;&nbsp;&nbsp;&nbsp;<a class="enum" href="https://doc.rust-lang.org/nightly/core/option/enum.Option.html" title="enum core::option::Option">Option</a>&lt;T::<a class="associatedtype" href="scale_info/form/trait.Form.html#associatedtype.String" title="type scale_info::form::Form::String">String</a>&gt;: Encode,<br>&nbsp;&nbsp;&nbsp;&nbsp;T::<a class="associatedtype" href="scale_info/form/trait.Form.html#associatedtype.Type" title="type scale_info::form::Form::Type">Type</a>: Encode,<br>&nbsp;&nbsp;&nbsp;&nbsp;T::<a class="associatedtype" href="scale_info/form/trait.Form.html#associatedtype.Type" title="type scale_info::form::Form::Type">Type</a>: Encode,<br>&nbsp;&nbsp;&nbsp;&nbsp;<a class="enum" href="https://doc.rust-lang.org/nightly/core/option/enum.Option.html" title="enum core::option::Option">Option</a>&lt;T::<a class="associatedtype" href="scale_info/form/trait.Form.html#associatedtype.String" title="type scale_info::form::Form::String">String</a>&gt;: Encode,<br>&nbsp;&nbsp;&nbsp;&nbsp;<a class="enum" href="https://doc.rust-lang.org/nightly/core/option/enum.Option.html" title="enum core::option::Option">Option</a>&lt;T::<a class="associatedtype" href="scale_info/form/trait.Form.html#associatedtype.String" title="type scale_info::form::Form::String">String</a>&gt;: Encode,<br>&nbsp;&nbsp;&nbsp;&nbsp;<a class="struct" href="scale_info/prelude/vec/struct.Vec.html" title="struct scale_info::prelude::vec::Vec">Vec</a>&lt;T::<a class="associatedtype" href="scale_info/form/trait.Form.html#associatedtype.String" title="type scale_info::form::Form::String">String</a>&gt;: Encode,<br>&nbsp;&nbsp;&nbsp;&nbsp;<a class="struct" href="scale_info/prelude/vec/struct.Vec.html" title="struct scale_info::prelude::vec::Vec">Vec</a>&lt;T::<a class="associatedtype" href="scale_info/form/trait.Form.html#associatedtype.String" title="type scale_info::form::Form::String">String</a>&gt;: Encode,&nbsp;</span>'',
     synthetic = False, types = [''scale_info::ty::fields::Field'']\<rparr>\<close>

definition scale_info_4 :: descriptor where
  \<open>scale_info_4 = \<lparr>text = ''impl&lt;T:&nbsp;<a class="trait" href="scale_info/form/trait.Form.html" title="trait scale_info::form::Form">Form</a>&gt; Encode for <a class="struct" href="scale_info/struct.Path.html" title="struct scale_info::Path">Path</a>&lt;T&gt; <span class="where fmt-newline">where<br>&nbsp;&nbsp;&nbsp;&nbsp;<a class="struct" href="scale_info/prelude/vec/struct.Vec.html" title="struct scale_info::prelude::vec::Vec">Vec</a>&lt;T::<a class="associatedtype" href="scale_info/form/trait.Form.html#associatedtype.String" title="type scale_info::form::Form::String">String</a>&gt;: Encode,<br>&nbsp;&nbsp;&nbsp;&nbsp;<a class="struct" href="scale_info/prelude/vec/struct.Vec.html" title="struct scale_info::prelude::vec::Vec">Vec</a>&lt;T::<a class="associatedtype" href="scale_info/form/trait.Form.html#associatedtype.String" title="type scale_info::form::Form::String">String</a>&gt;: Encode,&nbsp;</span>'',
     synthetic = False, types = [''scale_info::ty::path::Path'']\<rparr>\<close>

definition scale_info_5 :: descriptor where
  \<open>scale_info_5 = \<lparr>text = ''impl&lt;T:&nbsp;<a class="trait" href="scale_info/form/trait.Form.html" title="trait scale_info::form::Form">Form</a>&gt; Encode for <a class="struct" href="scale_info/struct.TypeDefVariant.html" title="struct scale_info::TypeDefVariant">TypeDefVariant</a>&lt;T&gt; <span class="where fmt-newline">where<br>&nbsp;&nbsp;&nbsp;&nbsp;<a class="struct" href="scale_info/prelude/vec/struct.Vec.html" title="struct scale_info::prelude::vec::Vec">Vec</a>&lt;<a class="struct" href="scale_info/struct.Variant.html" title="struct scale_info::Variant">Variant</a>&lt;T&gt;&gt;: Encode,<br>&nbsp;&nbsp;&nbsp;&nbsp;<a class="struct" href="scale_info/prelude/vec/struct.Vec.html" title="struct scale_info::prelude::vec::Vec">Vec</a>&lt;<a class="struct" href="scale_info/struct.Variant.html" title="struct scale_info::Variant">Variant</a>&lt;T&gt;&gt;: Encode,&nbsp;</span>'',
     synthetic = False, types = [''scale_info::ty::variant::TypeDefVariant'']\<rparr>\<close>

definition scale_info_6 :: descriptor where
  \<open>scale_info_6 = \<lparr>text = ''impl&lt;T:&nbsp;<a class="trait" href="scale_info/form/trait.Form.html" title="trait scale_info::form::Form">Form</a>&gt; Encode for <a class="struct" href="scale_info/struct.Variant.html" title="struct scale_info::Variant">Variant</a>&lt;T&gt; <span class="where fmt-newline">where<br>&nbsp;&nbsp;&nbsp;&nbsp;T::<a class="associatedtype" href="scale_info/form/trait.Form.html#associatedtype.String" title="type scale_info::form::Form::String">String</a>: Encode,<br>&nbsp;&nbsp;&nbsp;&nbsp;T::<a class="associatedtype" href="scale_info/form/trait.Form.html#associatedtype.String" title="type scale_info::form::Form::String">String</a>: Encode,<br>&nbsp;&nbsp;&nbsp;&nbsp;<a class="struct" href="scale_info/prelude/vec/struct.Vec.html" title="struct scale_info::prelude::vec::Vec">Vec</a>&lt;<a class="struct" href="scale_info/struct.Field.html" title="struct scale_info::Field">Field</a>&lt;T&gt;&gt;: Encode,<br>&nbsp;&nbsp;&nbsp;&nbsp;<a class="struct" href="scale_info/prelude/vec/struct.Vec.html" title="struct scale_info::prelude::vec::Vec">Vec</a>&lt;<a class="struct" href="scale_info/struct.Field.html" title="struct scale_info::Field">Field</a>&lt;T&gt;&gt;: Encode,<br>&nbsp;&nbsp;&nbsp;&nbsp;<a class="struct" href="scale_info/prelude/vec/struct.Vec.html" title="struct scale_info::prelude::vec::Vec">Vec</a>&lt;T::<a class="associatedtype" href="scale_info/form/trait.Form.html#associatedtype.String" title="type scale_info::form::Form::String">String</a>&gt;: Encode,<br>&nbsp;&nbsp;&nbsp;&nbsp;<a class="struct" href="scale_info/prelude/vec/struct.Vec.html" title="struct scale_info::prelude::vec::Vec">Vec</a>&lt;T::<a class="associatedtype" href="scale_info/form/trait.Form.html#associatedtype.String" title="type scale_info::form::Form::String">String</a>&gt;: Encode,&nbsp;</span>'',
     synthetic = False, types = [''scale_info::ty::variant::Variant'']\<rparr>\<close>

definition scale_info_7 :: descriptor where
  \<open>scale_info_7 = \<lparr>text = ''impl&lt;T:&nbsp;<a class="trait" href="scale_info/form/trait.Form.html" title="trait scale_info::form::Form">Form</a>&gt; Encode for <a class="struct" href="scale_info/struct.Type.html" title="struct scale_info::Type">Type</a>&lt;T&gt; <span class="where fmt-newline">where<br>&nbsp;&nbsp;&nbsp;&nbsp;<a class="struct" href="scale_info/struct.Path.html" title="struct scale_info::Path">Path</a>&lt;T&gt;: Encode,<br>&nbsp;&nbsp;&nbsp;&nbsp;<a class="struct" href="scale_info/struct.Path.html" title="struct scale_info::Path">Path</a>&lt;T&gt;: Encode,<br>&nbsp;&nbsp;&nbsp;&nbsp;<a class="struct" href="scale_info/prelude/vec/struct.Vec.html" title="struct scale_info::prelude::vec::Vec">Vec</a>&lt;<a class="struct" href="scale_info/struct.TypeParameter.html" title="struct scale_info::TypeParameter">TypeParameter</a>&lt;T&gt;&gt;: Encode,<br>&nbsp;&nbsp;&nbsp;&nbsp;<a class="struct" href="scale_info/prelude/vec/struct.Vec.html" title="struct scale_info::prelude::vec::Vec">Vec</a>&lt;<a class="struct" href="scale_info/struct.TypeParameter.html" title="struct scale_info::TypeParameter">TypeParameter</a>&lt;T&gt;&gt;: Encode,<br>&nbsp;&nbsp;&nbsp;&nbsp;<a class="enum" href="scale_info/enum.TypeDef.html" title="enum scale_info::TypeDef">TypeDef</a>&lt;T&gt;: Encode,<br>&nbsp;&nbsp;&nbsp;&nbsp;<a class="enum" href="scale_info/enum.TypeDef.html" title="enum scale_info::TypeDef">TypeDef</a>&lt;T&gt;: Encode,<br>&nbsp;&nbsp;&nbsp;&nbsp;<a class="struct" href="scale_info/prelude/vec/struct.Vec.html" title="struct scale_info::prelude::vec::Vec">Vec</a>&lt;T::<a class="associatedtype" href="scale_info/form/trait.Form.html#associatedtype.String" title="type scale_info::form::Form::String">String</a>&gt;: Encode,<br>&nbsp;&nbsp;&nbsp;&nbsp;<a class="struct" href="scale_info/prelude/vec/struct.Vec.html" title="struct scale_info::prelude::vec::Vec">Vec</a>&lt;T::<a class="associatedtype" href="scale_info/form/trait.Form.html#associatedtype.String" title="type scale_info::form::Form::String">String</a>&gt;: Encode,&nbsp;</span>'',
     synthetic = False, types = [''scale_info::ty::Type'']\<rparr>\<close>

definition scale_info_8 :: descriptor where
  \<open>scale_info_8 = \<lparr>text = ''impl&lt;T:&nbsp;<a class="trait" href="scale_info/form/trait.Form.html" title="trait scale_info::form::Form">Form</a>&gt; Encode for <a class="struct" href="scale_info/struct.TypeParameter.html" title="struct scale_info::TypeParameter">TypeParameter</a>&lt;T&gt; <span class="where fmt-newline">where<br>&nbsp;&nbsp;&nbsp;&nbsp;T::<a class="associatedtype" href="scale_info/form/trait.Form.html#associatedtype.String" title="type scale_info::form::Form::String">String</a>: Encode,<br>&nbsp;&nbsp;&nbsp;&nbsp;T::<a class="associatedtype" href="scale_info/form/trait.Form.html#associatedtype.String" title="type scale_info::form::Form::String">String</a>: Encode,<br>&nbsp;&nbsp;&nbsp;&nbsp;<a class="enum" href="https://doc.rust-lang.org/nightly/core/option/enum.Option.html" title="enum core::option::Option">Option</a>&lt;T::<a class="associatedtype" href="scale_info/form/trait.Form.html#associatedtype.Type" title="type scale_info::form::Form::Type">Type</a>&gt;: Encode,<br>&nbsp;&nbsp;&nbsp;&nbsp;<a class="enum" href="https://doc.rust-lang.org/nightly/core/option/enum.Option.html" title="enum core::option::Option">Option</a>&lt;T::<a class="associatedtype" href="scale_info/form/trait.Form.html#associatedtype.Type" title="type scale_info::form::Form::Type">Type</a>&gt;: Encode,&nbsp;</span>'',
     synthetic = False, types = [''scale_info::ty::TypeParameter'']\<rparr>\<close>

definition scale_info_9 :: descriptor where
  \<open>scale_info_9 = \<lparr>text = ''impl&lt;T:&nbsp;<a class="trait" href="scale_info/form/trait.Form.html" title="trait scale_info::form::Form">Form</a>&gt; Encode for <a class="enum" href="scale_info/enum.TypeDef.html" title="enum scale_info::TypeDef">TypeDef</a>&lt;T&gt; <span class="where fmt-newline">where<br>&nbsp;&nbsp;&nbsp;&nbsp;<a class="struct" href="scale_info/struct.TypeDefComposite.html" title="struct scale_info::TypeDefComposite">TypeDefComposite</a>&lt;T&gt;: Encode,<br>&nbsp;&nbsp;&nbsp;&nbsp;<a class="struct" href="scale_info/struct.TypeDefComposite.html" title="struct scale_info::TypeDefComposite">TypeDefComposite</a>&lt;T&gt;: Encode,<br>&nbsp;&nbsp;&nbsp;&nbsp;<a class="struct" href="scale_info/struct.TypeDefVariant.html" title="struct scale_info::TypeDefVariant">TypeDefVariant</a>&lt;T&gt;: Encode,<br>&nbsp;&nbsp;&nbsp;&nbsp;<a class="struct" href="scale_info/struct.TypeDefVariant.html" title="struct scale_info::TypeDefVariant">TypeDefVariant</a>&lt;T&gt;: Encode,<br>&nbsp;&nbsp;&nbsp;&nbsp;<a class="struct" href="scale_info/struct.TypeDefSequence.html" title="struct scale_info::TypeDefSequence">TypeDefSequence</a>&lt;T&gt;: Encode,<br>&nbsp;&nbsp;&nbsp;&nbsp;<a class="struct" href="scale_info/struct.TypeDefSequence.html" title="struct scale_info::TypeDefSequence">TypeDefSequence</a>&lt;T&gt;: Encode,<br>&nbsp;&nbsp;&nbsp;&nbsp;<a class="struct" href="scale_info/struct.TypeDefArray.html" title="struct scale_info::TypeDefArray">TypeDefArray</a>&lt;T&gt;: Encode,<br>&nbsp;&nbsp;&nbsp;&nbsp;<a class="struct" href="scale_info/struct.TypeDefArray.html" title="struct scale_info::TypeDefArray">TypeDefArray</a>&lt;T&gt;: Encode,<br>&nbsp;&nbsp;&nbsp;&nbsp;<a class="struct" href="scale_info/struct.TypeDefTuple.html" title="struct scale_info::TypeDefTuple">TypeDefTuple</a>&lt;T&gt;: Encode,<br>&nbsp;&nbsp;&nbsp;&nbsp;<a class="struct" href="scale_info/struct.TypeDefTuple.html" title="struct scale_info::TypeDefTuple">TypeDefTuple</a>&lt;T&gt;: Encode,<br>&nbsp;&nbsp;&nbsp;&nbsp;<a class="struct" href="scale_info/struct.TypeDefCompact.html" title="struct scale_info::TypeDefCompact">TypeDefCompact</a>&lt;T&gt;: Encode,<br>&nbsp;&nbsp;&nbsp;&nbsp;<a class="struct" href="scale_info/struct.TypeDefCompact.html" title="struct scale_info::TypeDefCompact">TypeDefCompact</a>&lt;T&gt;: Encode,<br>&nbsp;&nbsp;&nbsp;&nbsp;<a class="struct" href="scale_info/struct.TypeDefBitSequence.html" title="struct scale_info::TypeDefBitSequence">TypeDefBitSequence</a>&lt;T&gt;: Encode,<br>&nbsp;&nbsp;&nbsp;&nbsp;<a class="struct" href="scale_info/struct.TypeDefBitSequence.html" title="struct scale_info::TypeDefBitSequence">TypeDefBitSequence</a>&lt;T&gt;: Encode,&nbsp;</span>'',
     synthetic = False, types = [''scale_info::ty::TypeDef'']\<rparr>\<close>

definition scale_info_10 :: descriptor where
  \<open>scale_info_10 = \<lparr>text = ''impl Encode for <a class="enum" href="scale_info/enum.TypeDefPrimitive.html" title="enum scale_info::TypeDefPrimitive">TypeDefPrimitive</a>'',
     synthetic = False, types = [''scale_info::ty::TypeDefPrimitive'']\<rparr>\<close>

definition scale_info_11 :: descriptor where
  \<open>scale_info_11 = \<lparr>text = ''impl&lt;T:&nbsp;<a class="trait" href="scale_info/form/trait.Form.html" title="trait scale_info::form::Form">Form</a>&gt; Encode for <a class="struct" href="scale_info/struct.TypeDefArray.html" title="struct scale_info::TypeDefArray">TypeDefArray</a>&lt;T&gt; <span class="where fmt-newline">where<br>&nbsp;&nbsp;&nbsp;&nbsp;T::<a class="associatedtype" href="scale_info/form/trait.Form.html#associatedtype.Type" title="type scale_info::form::Form::Type">Type</a>: Encode,<br>&nbsp;&nbsp;&nbsp;&nbsp;T::<a class="associatedtype" href="scale_info/form/trait.Form.html#associatedtype.Type" title="type scale_info::form::Form::Type">Type</a>: Encode,&nbsp;</span>'',
     synthetic = False, types = [''scale_info::ty::TypeDefArray'']\<rparr>\<close>

definition scale_info_12 :: descriptor where
  \<open>scale_info_12 = \<lparr>text = ''impl&lt;T:&nbsp;<a class="trait" href="scale_info/form/trait.Form.html" title="trait scale_info::form::Form">Form</a>&gt; Encode for <a class="struct" href="scale_info/struct.TypeDefTuple.html" title="struct scale_info::TypeDefTuple">TypeDefTuple</a>&lt;T&gt; <span class="where fmt-newline">where<br>&nbsp;&nbsp;&nbsp;&nbsp;<a class="struct" href="scale_info/prelude/vec/struct.Vec.html" title="struct scale_info::prelude::vec::Vec">Vec</a>&lt;T::<a class="associatedtype" href="scale_info/form/trait.Form.html#associatedtype.Type" title="type scale_info::form::Form::Type">Type</a>&gt;: Encode,<br>&nbsp;&nbsp;&nbsp;&nbsp;<a class="struct" href="scale_info/prelude/vec/struct.Vec.html" title="struct scale_info::prelude::vec::Vec">Vec</a>&lt;T::<a class="associatedtype" href="scale_info/form/trait.Form.html#associatedtype.Type" title="type scale_info::form::Form::Type">Type</a>&gt;: Encode,&nbsp;</span>'',
     synthetic = False, types = [''scale_info::ty::TypeDefTuple'']\<rparr>\<close>

definition scale_info_13 :: descriptor where
  \<open>scale_info_13 = \<lparr>text = ''impl&lt;T:&nbsp;<a class="trait" href="scale_info/form/trait.Form.html" title="trait scale_info::form::Form">Form</a>&gt; Encode for <a class="struct" href="scale_info/struct.TypeDefSequence.html" title="struct scale_info::TypeDefSequence">TypeDefSequence</a>&lt;T&gt; <span class="where fmt-newline">where<br>&nbsp;&nbsp;&nbsp;&nbsp;T::<a class="associatedtype" href="scale_info/form/trait.Form.html#associatedtype.Type" title="type scale_info::form::Form::Type">Type</a>: Encode,<br>&nbsp;&nbsp;&nbsp;&nbsp;T::<a class="associatedtype" href="scale_info/form/trait.Form.html#associatedtype.Type" title="type scale_info::form::Form::Type">Type</a>: Encode,&nbsp;</span>'',
     synthetic = False, types = [''scale_info::ty::TypeDefSequence'']\<rparr>\<close>

definition scale_info_14 :: descriptor where
  \<open>scale_info_14 = \<lparr>text = ''impl&lt;T:&nbsp;<a class="trait" href="scale_info/form/trait.Form.html" title="trait scale_info::form::Form">Form</a>&gt; Encode for <a class="struct" href="scale_info/struct.TypeDefCompact.html" title="struct scale_info::TypeDefCompact">TypeDefCompact</a>&lt;T&gt; <span class="where fmt-newline">where<br>&nbsp;&nbsp;&nbsp;&nbsp;T::<a class="associatedtype" href="scale_info/form/trait.Form.html#associatedtype.Type" title="type scale_info::form::Form::Type">Type</a>: Encode,<br>&nbsp;&nbsp;&nbsp;&nbsp;T::<a class="associatedtype" href="scale_info/form/trait.Form.html#associatedtype.Type" title="type scale_info::form::Form::Type">Type</a>: Encode,&nbsp;</span>'',
     synthetic = False, types = [''scale_info::ty::TypeDefCompact'']\<rparr>\<close>

definition scale_info_15 :: descriptor where
  \<open>scale_info_15 = \<lparr>text = ''impl&lt;T:&nbsp;<a class="trait" href="scale_info/form/trait.Form.html" title="trait scale_info::form::Form">Form</a>&gt; Encode for <a class="struct" href="scale_info/struct.TypeDefBitSequence.html" title="struct scale_info::TypeDefBitSequence">TypeDefBitSequence</a>&lt;T&gt; <span class="where fmt-newline">where<br>&nbsp;&nbsp;&nbsp;&nbsp;T::<a class="associatedtype" href="scale_info/form/trait.Form.html#associatedtype.Type" title="type scale_info::form::Form::Type">Type</a>: Encode,<br>&nbsp;&nbsp;&nbsp;&nbsp;T::<a class="associatedtype" href="scale_info/form/trait.Form.html#associatedtype.Type" title="type scale_info::form::Form::Type">Type</a>: Encode,<br>&nbsp;&nbsp;&nbsp;&nbsp;T::<a class="associatedtype" href="scale_info/form/trait.Form.html#associatedtype.Type" title="type scale_info::form::Form::Type">Type</a>: Encode,<br>&nbsp;&nbsp;&nbsp;&nbsp;T::<a class="associatedtype" href="scale_info/form/trait.Form.html#associatedtype.Type" title="type scale_info::form::Form::Type">Type</a>: Encode,&nbsp;</span>'',
     synthetic = False, types = [''scale_info::ty::TypeDefBitSequence'']\<rparr>\<close>

definition implementors_scale_info :: "descriptor list" where
  "implementors_scale_info =
     [scale_info_0, scale_info_1, scale_info_2, scale_info_3, scale_info_4,
      scale_info_5, scale_info_6, scale_info_7, scale_info_8, scale_info_9,
      scale_info_10, scale_info_11, scale_info_12, scale_info_13, scale_info_14,
      scale_info_15]"
subsection \<open>Lines 1 to 4: building the registry\<close>

definition load :: registry where
  "load =
     AList.update ''scale_info'' implementors_scale_info
       (AList.update ''ink_primitives'' implementors_ink_primitives
         (AList.update ''ink_env'' implementors_ink_env []))"

text \<open>The invariant of the data model: no empty key, no descriptor without a type path.\<close>

definition descriptor_ok :: "descriptor \<Rightarrow> bool" where
  "descriptor_ok d = (types d \<noteq> [])"

definition registry_invariant :: "registry \<Rightarrow> bool" where
  "registry_invariant r =
     list_all (\<lambda>(k, ds). k \<noteq> [] \<and> list_all descriptor_ok ds) r"

text \<open>A fully-qualified type path has the path separator \<open>::\<close> in it.\<close>

fun fully_qualified :: "string \<Rightarrow> bool" where
  "fully_qualified (a # b # cs) = ((a = CHR '':'' \<and> b = CHR '':'') \<or> fully_qualified (b # cs))"
| "fully_qualified _ = False"

subsection \<open>The global object\<close>

text \<open>
  The values a property of \<open>window\<close> can hold. A function is named by a handle; its
  body is host code and is a parameter of the model (\<open>host\<close> below). The only objects
  the script makes are registries. Numbers are modelled by the integers and \<open>NaN\<close>.
\<close>

datatype jsval =
    Undefined
  | Null
  | Boolean bool
  | Number int
  | NaN
  | String string
  | Object registry
  | Function nat

text \<open>The test of \<open>if (v)\<close>: every value is true except the falsy ones.\<close>

fun truthy :: "jsval \<Rightarrow> bool" where
  "truthy Undefined = False"
| "truthy Null = False"
| "truthy (Boolean b) = b"
| "truthy (Number n) = (n \<noteq> 0)"
| "truthy NaN = False"
| "truthy (String s) = (s \<noteq> [])"
| "truthy (Object r) = True"
| "truthy (Function f) = True"

text \<open>
  \<open>window\<close> maps every property name to its value; a property that was never
  assigned reads as \<open>undefined\<close>.
\<close>

type_synonym window = "string \<Rightarrow> jsval"

definition empty_window :: window where
  "empty_window = (\<lambda>name. Undefined)"

text \<open>
  How a script run ends: it returns, or the call of a value that is not a function
  raises a \<open>TypeError\<close>, or the exception of the called function passes through.
\<close>

datatype completion = Normal | TypeError | HookThrew

text \<open>
  What the script does to the global object, in order: the properties of
  \<open>window\<close> it reads and writes and the calls it makes, with the argument.
\<close>

datatype event =
    Read string
  | Write string jsval
  | Call nat registry

text \<open>
  The body of a function of the host page: called with its handle, the argument and
  the global object, it says whether it threw and returns the global object it left.
\<close>

type_synonym host = "nat \<Rightarrow> registry \<Rightarrow> window \<Rightarrow> bool \<times> window"

text \<open>The host whose functions do nothing and return.\<close>

definition quiet_host :: host where
  "quiet_host = (\<lambda>f r w. (False, w))"

text \<open>The host whose functions throw at once.\<close>

definition throwing_host :: host where
  "throwing_host = (\<lambda>f r w. (True, w))"

text \<open>
  The host whose functions copy the property \<open>other\<close> of \<open>window\<close> into
  \<open>pending_implementors\<close> and return.
\<close>

definition copying_host :: host where
  "copying_host = (\<lambda>f r w. (False, w(''pending_implementors'' := w ''other'')))"

subsection \<open>Line 5: handing the registry over\<close>

text \<open>
  \<^verbatim>\<open>if (window.register_implementors) {window.register_implementors(implementors);}
  else {window.pending_implementors = implementors;}\<close>
  The condition reads the property; the call reads it again and applies it.
\<close>

definition publish :: "host \<Rightarrow> registry \<Rightarrow> window \<Rightarrow> completion \<times> event list \<times> window" where
  "publish host implementors w =
     (if truthy (w ''register_implementors'')
      then (case w ''register_implementors'' of
              Function f \<Rightarrow>
                (case host f implementors w of
                   (threw, w') \<Rightarrow>
                     (if threw then HookThrew else Normal,
                      [Read ''register_implementors'', Read ''register_implementors'',
                       Call f implementors],
                      w'))
            | _ \<Rightarrow>
                (TypeError,
                 [Read ''register_implementors'', Read ''register_implementors''],
                 w))
      else (Normal,
            [Read ''register_implementors'',
             Write ''pending_implementors'' (Object implementors)],
            w(''pending_implementors'' := Object implementors)))"

text \<open>The three components of a result.\<close>

definition completion_of :: "completion \<times> event list \<times> window \<Rightarrow> completion" where
  "completion_of res = fst res"

definition events_of :: "completion \<times> event list \<times> window \<Rightarrow> event list" where
  "events_of res = fst (snd res)"

definition window_of :: "completion \<times> event list \<times> window \<Rightarrow> window" where
  "window_of res = snd (snd res)"

text \<open>The calls, the writes and the names read in a list of events.\<close>

fun calls :: "event list \<Rightarrow> (nat \<times> registry) list" where
  "calls [] = []"
| "calls (Call f r # es) = (f, r) # calls es"
| "calls (e # es) = calls es"

fun writes :: "event list \<Rightarrow> (string \<times> jsval) list" where
  "writes [] = []"
| "writes (Write n v # es) = (n, v) # writes es"
| "writes (e # es) = writes es"

fun reads :: "event list \<Rightarrow> string list" where
  "reads [] = []"
| "reads (Read n # es) = n # reads es"
| "reads (e # es) = reads es"

subsection \<open>The whole script\<close>

definition script :: "host \<Rightarrow> window \<Rightarrow> completion \<times> event list \<times> window" where
  "script host w = publish host load w"

text \<open>
  The same script statement by statement. A control point says which line runs next
  and holds the local variable \<open>implementors\<close> once line 1 has assigned it; the
  function has returned or thrown at \<open>Exit\<close>.
\<close>

datatype point =
    Line1
  | Line2 registry
  | Line3 registry
  | Line4 registry
  | Line5 registry
  | Exit completion

type_synonym config = "point \<times> event list \<times> window"

fun step :: "host \<Rightarrow> config \<Rightarrow> config option" where
  "step host (Line1, es, w) = Some (Line2 [], es, w)"
| "step host (Line2 r, es, w) =
     Some (Line3 (AList.update ''ink_env'' implementors_ink_env r), es, w)"
| "step host (Line3 r, es, w) =
     Some (Line4 (AList.update ''ink_primitives'' implementors_ink_primitives r), es, w)"
| "step host (Line4 r, es, w) =
     Some (Line5 (AList.update ''scale_info'' implementors_scale_info r), es, w)"
| "step host (Line5 r, es, w) =
     (case publish host r w of (c, es', w') \<Rightarrow> Some (Exit c, es @ es', w'))"
| "step host (Exit c, es, w) = None"

text \<open>Running until the function is left; five statements, so five steps are enough.\<close>

fun run :: "host \<Rightarrow> nat \<Rightarrow> config \<Rightarrow> config" where
  "run host 0 c = c"
| "run host (Suc n) c = (case step host c of None \<Rightarrow> c | Some c' \<Rightarrow> run host n c')"

text \<open>The two states of the specification's state machine, read off the control point.\<close>

datatype phase = UNPUBLISHED | PUBLISHED

fun phase_of :: "config \<Rightarrow> phase" where
  "phase_of (Exit c, es, w) = PUBLISHED"
| "phase_of (p, es, w) = UNPUBLISHED"

definition steps_to :: "host \<Rightarrow> config \<Rightarrow> config \<Rightarrow> bool" where
  "steps_to host c c' = (step host c = Some c')"

text \<open>The claim that a call of \<open>publish\<close> has exactly one of its two effects.\<close>

definition exactly_one_effect :: "completion \<times> event list \<times> window \<Rightarrow> bool" where
  "exactly_one_effect res =
     ((length (calls (events_of res)) = 1 \<and> writes (events_of res) = []) \<or>
      (calls (events_of res) = [] \<and> length (writes (events_of res)) = 1))"

section \<open>Properties\<close>

subsection \<open>The three cases of line 5\<close>

lemma publish_function:
  assumes "w ''register_implementors'' = Function f"
  shows "publish host r w =
           (if fst (host f r w) then HookThrew else Normal,
            [Read ''register_implementors'', Read ''register_implementors'', Call f r],
            snd (host f r w))"
  using assms by (simp add: publish_def split: prod.splits)

lemma publish_falsy:
  assumes "\<not> truthy (w ''register_implementors'')"
  shows "publish host r w =
           (Normal,
            [Read ''register_implementors'', Write ''pending_implementors'' (Object r)],
            w(''pending_implementors'' := Object r))"
  using assms by (simp add: publish_def)

lemma publish_not_callable:
  assumes "truthy (w ''register_implementors'')"
    and "\<And>f. w ''register_implementors'' \<noteq> Function f"
  shows "publish host r w =
           (TypeError, [Read ''register_implementors'', Read ''register_implementors''], w)"
  using assms by (cases "w ''register_implementors''") (auto simp: publish_def)

lemma calls_append: "calls (xs @ ys) = calls xs @ calls ys"
  by (induction xs rule: calls.induct) simp_all

lemma load_eq:
  "load =
     [(''ink_env'', implementors_ink_env),
      (''ink_primitives'', implementors_ink_primitives),
      (''scale_info'', implementors_scale_info)]"
  by (simp add: load_def)

subsection \<open>Publishing\<close>

text \<open>
  C1. When \<open>window.register_implementors\<close> holds a function at the time of the call,
  \<open>publish\<close> calls that function exactly once, with the registry it was given as the
  argument; the call is made inside \<open>publish\<close>: the global object that \<open>publish\<close>
  returns is the one the function left, and an exception of the function is the
  exception of \<open>publish\<close>.
\<close>

theorem publish_invokes_installed_hook:
  assumes "w ''register_implementors'' = Function f"
  shows "calls (events_of (publish host R w)) = [(f, R)] \<and>
         window_of (publish host R w) = snd (host f R w) \<and>
         completion_of (publish host R w) = (if fst (host f R w) then HookThrew else Normal)"
  using assms
  by (simp add: publish_function events_of_def window_of_def completion_of_def)

theorem publish_invokes_installed_hook_witness:
  "(empty_window(''register_implementors'' := Function 0)) ''register_implementors'' = Function 0 \<and>
   calls (events_of (publish quiet_host [(''modA'', [ink_primitives_0])]
            (empty_window(''register_implementors'' := Function 0))))
     = [(0, [(''modA'', [ink_primitives_0])])]"
  using publish_invokes_installed_hook
    [of "empty_window(''register_implementors'' := Function 0)" 0 quiet_host
        "[(''modA'', [ink_primitives_0])]"]
  by simp

text \<open>
  C2. When \<open>window.register_implementors\<close> is absent (it reads as \<open>undefined\<close>, or
  as any other falsy value), \<open>publish\<close> leaves the registry it was given in
  \<open>window.pending_implementors\<close>, calls nothing and returns.
\<close>

theorem publish_buffers_when_hook_absent:
  assumes "\<not> truthy (w ''register_implementors'')"
  shows "window_of (publish host R w) ''pending_implementors'' = Object R \<and>
         calls (events_of (publish host R w)) = [] \<and>
         completion_of (publish host R w) = Normal"
  using assms
  by (simp add: publish_falsy events_of_def window_of_def completion_of_def)

theorem publish_buffers_when_hook_absent_witness:
  "\<not> truthy (empty_window ''register_implementors'') \<and>
   window_of (publish quiet_host [(''modA'', [ink_primitives_0])] empty_window)
       ''pending_implementors''
     = Object [(''modA'', [ink_primitives_0])] \<and>
   calls (events_of (publish quiet_host [(''modA'', [ink_primitives_0])] empty_window)) = []"
  using publish_buffers_when_hook_absent
    [of empty_window quiet_host "[(''modA'', [ink_primitives_0])]"]
  by (simp add: empty_window_def)

text \<open>
  C3. For every registry and each of the two states of the hook, installed
  (\<open>window.register_implementors\<close> holds a function) and absent (it is falsy), a call
  of \<open>publish\<close> has exactly one of the two effects, never both and never neither.
  With the hook installed, \<open>publish\<close> calls it once and writes nothing: it leaves the
  pending slot alone, and the global object it returns is the one the hook left. With
  the hook absent, \<open>publish\<close> writes the pending slot once and calls nothing.
\<close>

theorem publish_exactly_one_effect:
  assumes "\<not> truthy (w ''register_implementors'') \<or> (\<exists>g. w ''register_implementors'' = Function g)"
  shows "exactly_one_effect (publish host R w) \<and>
         (w ''register_implementors'' = Function f \<longrightarrow>
            calls (events_of (publish host R w)) = [(f, R)] \<and>
            writes (events_of (publish host R w)) = [] \<and>
            window_of (publish host R w) = snd (host f R w)) \<and>
         (\<not> truthy (w ''register_implementors'') \<longrightarrow>
            calls (events_of (publish host R w)) = [] \<and>
            writes (events_of (publish host R w)) = [(''pending_implementors'', Object R)] \<and>
            window_of (publish host R w) = w(''pending_implementors'' := Object R))"
proof (intro conjI impI)
  show "exactly_one_effect (publish host R w)"
    using assms
  proof
    assume "\<not> truthy (w ''register_implementors'')"
    then show ?thesis
      by (simp add: publish_falsy exactly_one_effect_def events_of_def)
  next
    assume "\<exists>g. w ''register_implementors'' = Function g"
    then obtain g where "w ''register_implementors'' = Function g" ..
    then show ?thesis
      by (simp add: publish_function exactly_one_effect_def events_of_def)
  qed
next
  assume "w ''register_implementors'' = Function f"
  then show "calls (events_of (publish host R w)) = [(f, R)]"
    and "writes (events_of (publish host R w)) = []"
    and "window_of (publish host R w) = snd (host f R w)"
    by (simp_all add: publish_function events_of_def window_of_def)
next
  assume "\<not> truthy (w ''register_implementors'')"
  then show "calls (events_of (publish host R w)) = []"
    and "writes (events_of (publish host R w)) = [(''pending_implementors'', Object R)]"
    and "window_of (publish host R w) = w(''pending_implementors'' := Object R)"
    by (simp_all add: publish_falsy events_of_def window_of_def)
qed

theorem publish_exactly_one_effect_witness:
  "(\<exists>g. (empty_window(''register_implementors'' := Function 0)) ''register_implementors'' = Function g) \<and>
   exactly_one_effect (publish quiet_host load (empty_window(''register_implementors'' := Function 0))) \<and>
   calls (events_of (publish quiet_host load (empty_window(''register_implementors'' := Function 0))))
     = [(0, load)] \<and>
   writes (events_of (publish quiet_host load (empty_window(''register_implementors'' := Function 0))))
     = [] \<and>
   window_of (publish quiet_host load (empty_window(''register_implementors'' := Function 0)))
       ''pending_implementors'' = Undefined \<and>
   \<not> truthy (empty_window ''register_implementors'') \<and>
   exactly_one_effect (publish quiet_host load empty_window) \<and>
   calls (events_of (publish quiet_host load empty_window)) = [] \<and>
   writes (events_of (publish quiet_host load empty_window))
     = [(''pending_implementors'', Object load)]"
  using publish_exactly_one_effect
      [of "empty_window(''register_implementors'' := Function 0)" quiet_host load 0]
    publish_exactly_one_effect [of empty_window quiet_host load 0]
  by (simp add: empty_window_def quiet_host_def)

subsection \<open>The registry of lines 1 to 4\<close>

lemma types_of_descriptors:
  "list_all (\<lambda>d. types d \<noteq> [] \<and> list_all fully_qualified (types d)) implementors_ink_env"
  "list_all (\<lambda>d. types d \<noteq> [] \<and> list_all fully_qualified (types d)) implementors_ink_primitives"
  "list_all (\<lambda>d. types d \<noteq> [] \<and> list_all fully_qualified (types d)) implementors_scale_info"
  by (simp_all add: implementors_ink_env_def implementors_ink_primitives_def
    implementors_scale_info_def
    ink_env_0_def ink_env_1_def ink_env_2_def ink_env_3_def ink_env_4_def ink_env_5_def
    ink_env_6_def ink_env_7_def ink_primitives_0_def scale_info_0_def scale_info_1_def
    scale_info_2_def scale_info_3_def scale_info_4_def scale_info_5_def scale_info_6_def
    scale_info_7_def scale_info_8_def scale_info_9_def scale_info_10_def
    scale_info_11_def scale_info_12_def scale_info_13_def scale_info_14_def
    scale_info_15_def)

text \<open>
  C4. The registry that lines 1 to 4 build satisfies the invariant of the data model:
  none of its keys is the empty string, and the \<open>types\<close> of every descriptor of every
  key is a non-empty list; every entry of these lists is a qualified path.
\<close>

theorem load_invariant:
  "registry_invariant load \<and>
   list_all (\<lambda>(k, ds). list_all (\<lambda>d. list_all fully_qualified (types d)) ds) load"
  using types_of_descriptors
  by (simp add: registry_invariant_def descriptor_ok_def load_eq list_all_iff)

text \<open>
  C5. \<open>load\<close> has no argument. Its value has the three keys \<open>ink_env\<close>,
  \<open>ink_primitives\<close> and \<open>scale_info\<close> and no other, bound to lists of 8, 1 and 16
  descriptors; a descriptor is a record of a string \<open>text\<close>, a boolean \<open>synthetic\<close>
  and a list of strings \<open>types\<close>.
\<close>

theorem load_shape:
  "map fst load = [''ink_env'', ''ink_primitives'', ''scale_info''] \<and>
   distinct (map fst load) \<and>
   map (\<lambda>(k, ds). length ds) load = [8, 1, 16] \<and>
   map_of load ''ink_env'' = Some implementors_ink_env \<and>
   map_of load ''ink_primitives'' = Some implementors_ink_primitives \<and>
   map_of load ''scale_info'' = Some implementors_scale_info"
  by (simp add: load_eq implementors_ink_env_def implementors_ink_primitives_def
    implementors_scale_info_def)

subsection \<open>No validation, no idempotence\<close>

text \<open>
  C6, as stated: \<open>publish\<close> does not fail, whatever the registry. It fails where
  the installed hook throws: line 5 has no \<open>try\<close>, so the exception of the hook
  leaves \<open>publish\<close>.
\<close>

theorem publish_total_counterexample:
  "completion_of
     (publish throwing_host [(''modB'', [])]
        (empty_window(''register_implementors'' := Function 0))) \<noteq> Normal"
  by (simp add: publish_def throwing_host_def completion_of_def)

text \<open>
  C6, amended. \<open>publish\<close> checks no registry. With the hook absent it returns
  normally for every registry, one that breaks the invariant of the data model
  included, and the pending slot then holds that very registry, while nothing else of
  the global object changes. With the hook installed, \<open>publish\<close> fails exactly where
  the hook itself throws, and then with the exception of the hook.
\<close>

theorem publish_total_no_validation:
  "(\<not> truthy (w ''register_implementors'') \<longrightarrow>
      publish host R w =
        (Normal,
         [Read ''register_implementors'', Write ''pending_implementors'' (Object R)],
         w(''pending_implementors'' := Object R))) \<and>
   (w ''register_implementors'' = Function f \<longrightarrow>
      (completion_of (publish host R w) = Normal) = (\<not> fst (host f R w)) \<and>
      (completion_of (publish host R w) = HookThrew) = fst (host f R w))"
proof (intro conjI impI)
  assume "\<not> truthy (w ''register_implementors'')"
  then show "publish host R w =
      (Normal,
       [Read ''register_implementors'', Write ''pending_implementors'' (Object R)],
       w(''pending_implementors'' := Object R))"
    by (rule publish_falsy)
next
  assume "w ''register_implementors'' = Function f"
  then show "(completion_of (publish host R w) = Normal) = (\<not> fst (host f R w))"
    and "(completion_of (publish host R w) = HookThrew) = fst (host f R w)"
    by (simp_all add: publish_function completion_of_def)
qed

theorem publish_total_no_validation_witness:
  "\<not> truthy (empty_window ''register_implementors'') \<and>
   publish quiet_host [(''modB'', [])] empty_window =
     (Normal,
      [Read ''register_implementors'',
       Write ''pending_implementors'' (Object [(''modB'', [])])],
      empty_window(''pending_implementors'' := Object [(''modB'', [])])) \<and>
   \<not> registry_invariant [([], [\<lparr>text = [], synthetic = False, types = []\<rparr>])] \<and>
   window_of (publish quiet_host [([], [\<lparr>text = [], synthetic = False, types = []\<rparr>])]
       empty_window) ''pending_implementors''
     = Object [([], [\<lparr>text = [], synthetic = False, types = []\<rparr>])] \<and>
   (empty_window(''register_implementors'' := Function 0)) ''register_implementors'' = Function 0 \<and>
   completion_of (publish quiet_host [(''modB'', [])]
       (empty_window(''register_implementors'' := Function 0))) = Normal \<and>
   completion_of (publish throwing_host [(''modB'', [])]
       (empty_window(''register_implementors'' := Function 0))) = HookThrew"
proof -
  have absent: "\<not> truthy (empty_window ''register_implementors'')"
    by (simp add: empty_window_def)
  have installed:
    "(empty_window(''register_implementors'' := Function 0)) ''register_implementors'' = Function 0"
    by simp
  have stored: "publish quiet_host [(''modB'', [])] empty_window =
     (Normal,
      [Read ''register_implementors'',
       Write ''pending_implementors'' (Object [(''modB'', [])])],
      empty_window(''pending_implementors'' := Object [(''modB'', [])]))"
    using absent publish_total_no_validation [of empty_window quiet_host "[(''modB'', [])]" 0]
    by simp
  have broken: "\<not> registry_invariant [([], [\<lparr>text = [], synthetic = False, types = []\<rparr>])]"
    by (simp add: registry_invariant_def)
  have stored_broken:
    "window_of (publish quiet_host [([], [\<lparr>text = [], synthetic = False, types = []\<rparr>])]
       empty_window) ''pending_implementors''
     = Object [([], [\<lparr>text = [], synthetic = False, types = []\<rparr>])]"
    using absent
      publish_total_no_validation
        [of empty_window quiet_host "[([], [\<lparr>text = [], synthetic = False, types = []\<rparr>])]" 0]
    by (simp add: window_of_def)
  have returns: "completion_of (publish quiet_host [(''modB'', [])]
       (empty_window(''register_implementors'' := Function 0))) = Normal"
    using installed
      publish_total_no_validation
        [of "empty_window(''register_implementors'' := Function 0)" quiet_host
            "[(''modB'', [])]" 0]
    by (simp add: quiet_host_def)
  have throws: "completion_of (publish throwing_host [(''modB'', [])]
       (empty_window(''register_implementors'' := Function 0))) = HookThrew"
    using installed
      publish_total_no_validation
        [of "empty_window(''register_implementors'' := Function 0)" throwing_host
            "[(''modB'', [])]" 0]
    by (simp add: throwing_host_def)
  from absent stored broken stored_broken installed returns throws show ?thesis
    by blast
qed

text \<open>
  C7. \<open>publish\<close> is not idempotent. With the hook absent, a second call overwrites
  what the first one stored: after \<open>publish R1\<close> the pending slot holds \<open>R1\<close>, after
  \<open>publish R2\<close> on the state the first call left it holds \<open>R2\<close>. With the hook
  installed before each of the two calls, the two calls together call the hook twice,
  once with \<open>R1\<close> and then once with \<open>R2\<close>.
\<close>

theorem publish_twice:
  "(\<not> truthy (w ''register_implementors'') \<longrightarrow>
      window_of (publish host R1 w) ''pending_implementors'' = Object R1 \<and>
      \<not> truthy (window_of (publish host R1 w) ''register_implementors'') \<and>
      window_of (publish host R2 (window_of (publish host R1 w))) ''pending_implementors''
        = Object R2 \<and>
      writes (events_of (publish host R1 w) @
              events_of (publish host R2 (window_of (publish host R1 w))))
        = [(''pending_implementors'', Object R1), (''pending_implementors'', Object R2)]) \<and>
   (w ''register_implementors'' = Function f \<and>
    window_of (publish host R1 w) ''register_implementors'' = Function g \<longrightarrow>
      calls (events_of (publish host R1 w) @
             events_of (publish host R2 (window_of (publish host R1 w))))
        = [(f, R1), (g, R2)])"
proof (intro conjI impI)
  assume absent: "\<not> truthy (w ''register_implementors'')"
  then have first: "window_of (publish host R1 w) = w(''pending_implementors'' := Object R1)"
    and ev1: "events_of (publish host R1 w) =
      [Read ''register_implementors'', Write ''pending_implementors'' (Object R1)]"
    by (simp_all add: publish_falsy window_of_def events_of_def)
  from absent first
  show still: "\<not> truthy (window_of (publish host R1 w) ''register_implementors'')"
    by simp
  from first show "window_of (publish host R1 w) ''pending_implementors'' = Object R1"
    by simp
  from still
  show "window_of (publish host R2 (window_of (publish host R1 w))) ''pending_implementors''
      = Object R2"
    by (simp add: publish_falsy window_of_def)
  from still ev1
  show "writes (events_of (publish host R1 w) @
          events_of (publish host R2 (window_of (publish host R1 w))))
      = [(''pending_implementors'', Object R1), (''pending_implementors'', Object R2)]"
    by (simp add: publish_falsy events_of_def)
next
  assume installed: "w ''register_implementors'' = Function f \<and>
    window_of (publish host R1 w) ''register_implementors'' = Function g"
  then have "calls (events_of (publish host R1 w)) = [(f, R1)]"
    by (simp add: publish_function events_of_def)
  moreover from installed
  have "calls (events_of (publish host R2 (window_of (publish host R1 w)))) = [(g, R2)]"
    by (simp add: publish_function [of "window_of (publish host R1 w)" g] events_of_def)
  ultimately show "calls (events_of (publish host R1 w) @
          events_of (publish host R2 (window_of (publish host R1 w))))
      = [(f, R1), (g, R2)]"
    by (simp add: calls_append)
qed

theorem publish_twice_witness:
  "\<not> truthy (empty_window ''register_implementors'') \<and>
   window_of (publish quiet_host [(''modB'', [])]
       (window_of (publish quiet_host [(''modA'', [ink_primitives_0])] empty_window)))
     ''pending_implementors'' = Object [(''modB'', [])] \<and>
   (empty_window(''register_implementors'' := Function 0)) ''register_implementors'' = Function 0 \<and>
   window_of (publish quiet_host [(''modA'', [ink_primitives_0])]
       (empty_window(''register_implementors'' := Function 0))) ''register_implementors''
     = Function 0 \<and>
   calls (events_of (publish quiet_host [(''modA'', [ink_primitives_0])]
            (empty_window(''register_implementors'' := Function 0))) @
          events_of (publish quiet_host [(''modB'', [])]
            (window_of (publish quiet_host [(''modA'', [ink_primitives_0])]
               (empty_window(''register_implementors'' := Function 0))))))
     = [(0, [(''modA'', [ink_primitives_0])]), (0, [(''modB'', [])])]"
proof -
  have absent: "\<not> truthy (empty_window ''register_implementors'')"
    by (simp add: empty_window_def)
  have installed:
    "(empty_window(''register_implementors'' := Function 0)) ''register_implementors'' = Function 0"
    by simp
  have still: "window_of (publish quiet_host [(''modA'', [ink_primitives_0])]
       (empty_window(''register_implementors'' := Function 0))) ''register_implementors''
     = Function 0"
    by (simp add: publish_def quiet_host_def window_of_def)
  show ?thesis
    using absent installed still
      publish_twice [of empty_window quiet_host "[(''modA'', [ink_primitives_0])]"
        "[(''modB'', [])]" 0 0]
      publish_twice [of "empty_window(''register_implementors'' := Function 0)" quiet_host
        "[(''modA'', [ink_primitives_0])]" "[(''modB'', [])]" 0 0]
    by simp
qed

subsection \<open>The script as a state machine\<close>

lemma step_from_unpublished:
  assumes "step host c = Some c'"
  shows "phase_of c = UNPUBLISHED"
  using assms by (cases "(host, c)" rule: step.cases) simp_all

lemma step_into_published:
  assumes "step host c = Some c'" and "phase_of c' = PUBLISHED"
  shows "\<exists>r es w. c = (Line5 r, es, w) \<and>
           c' = (Exit (completion_of (publish host r w)),
                 es @ events_of (publish host r w),
                 window_of (publish host r w))"
  using assms
  by (cases "(host, c)" rule: step.cases)
    (auto simp: completion_of_def events_of_def window_of_def split: prod.splits)

lemma published_no_step:
  assumes "phase_of c = PUBLISHED"
  shows "step host c = None"
  using assms by (cases "(host, c)" rule: step.cases) simp_all

lemma run_stuck:
  assumes "step host c = None"
  shows "run host n c = c"
  using assms by (cases n) simp_all

lemma run_add: "run host (m + n) c = run host n (run host m c)"
proof (induction m arbitrary: c)
  case 0
  show ?case by simp
next
  case (Suc m)
  show ?case
  proof (cases "step host c")
    case None
    then show ?thesis by (simp add: run_stuck)
  next
    case (Some c')
    with Suc show ?thesis by simp
  qed
qed

lemma steps_from_published:
  assumes "(steps_to host)\<^sup>*\<^sup>* c c'" and "phase_of c = PUBLISHED"
  shows "c' = c"
  using assms
proof (induction rule: rtranclp_induct)
  case base
  show ?case by simp
next
  case (step y z)
  then have "step host c = Some z"
    by (simp add: steps_to_def)
  with step.prems show ?case
    by (simp add: published_no_step)
qed

lemma run_lines_1_to_4: "run host 4 (Line1, es, w) = (Line5 load, es, w)"
  by (simp add: eval_nat_numeral load_def)

lemma run_script:
  "run host 5 (Line1, [], w) =
     (Exit (completion_of (script host w)), events_of (script host w),
      window_of (script host w))"
proof -
  have "run host (4 + 1) (Line1, [], w) = run host 1 (Line5 load, [], w)"
    by (simp only: run_add run_lines_1_to_4)
  then show ?thesis
    by (simp add: script_def completion_of_def events_of_def window_of_def
        split: prod.splits)
qed

text \<open>
  C8. Read off the control point, the script has the two states \<open>UNPUBLISHED\<close>
  (line 5 has not run) and \<open>PUBLISHED\<close> (the function is left), and no other. Every
  step starts in \<open>UNPUBLISHED\<close>; the only step into \<open>PUBLISHED\<close> is line 5, which is
  one call of \<open>publish\<close>. A configuration in \<open>PUBLISHED\<close> has no step: running on
  leaves it as it is, and nothing but itself is reachable from it. A run from line 1
  is in \<open>PUBLISHED\<close> after five steps, with the events of the one call of
  \<open>publish\<close> on the registry of \<open>load\<close>, and further steps add nothing.
\<close>

theorem published_is_terminal:
  "(UNIV :: phase set) = {UNPUBLISHED, PUBLISHED} \<and> UNPUBLISHED \<noteq> PUBLISHED \<and>
   (step host c = Some c' \<longrightarrow> phase_of c = UNPUBLISHED) \<and>
   (step host c = Some c' \<and> phase_of c' = PUBLISHED \<longrightarrow>
      (\<exists>r es w. c = (Line5 r, es, w) \<and>
         c' = (Exit (completion_of (publish host r w)),
               es @ events_of (publish host r w),
               window_of (publish host r w)))) \<and>
   (phase_of c = PUBLISHED \<longrightarrow> step host c = None \<and> run host n c = c) \<and>
   ((steps_to host)\<^sup>*\<^sup>* c c' \<and> phase_of c = PUBLISHED \<longrightarrow> c' = c) \<and>
   run host 5 (Line1, [], w0) =
     (Exit (completion_of (script host w0)), events_of (script host w0),
      window_of (script host w0)) \<and>
   phase_of (run host 5 (Line1, [], w0)) = PUBLISHED \<and>
   run host (5 + n) (Line1, [], w0) = run host 5 (Line1, [], w0)"
proof (intro conjI impI)
  show "(UNIV :: phase set) = {UNPUBLISHED, PUBLISHED}"
  proof
    show "(UNIV :: phase set) \<subseteq> {UNPUBLISHED, PUBLISHED}"
    proof
      fix p :: phase
      show "p \<in> {UNPUBLISHED, PUBLISHED}" by (cases p) simp_all
    qed
  qed simp
  show "UNPUBLISHED \<noteq> PUBLISHED" by simp
next
  assume "step host c = Some c'"
  then show "phase_of c = UNPUBLISHED" by (rule step_from_unpublished)
next
  assume "step host c = Some c' \<and> phase_of c' = PUBLISHED"
  then show "\<exists>r es w. c = (Line5 r, es, w) \<and>
      c' = (Exit (completion_of (publish host r w)),
            es @ events_of (publish host r w),
            window_of (publish host r w))"
    by (simp add: step_into_published)
next
  assume p: "phase_of c = PUBLISHED"
  then show "step host c = None" by (rule published_no_step)
  with p show "run host n c = c" by (simp add: run_stuck)
next
  assume "(steps_to host)\<^sup>*\<^sup>* c c' \<and> phase_of c = PUBLISHED"
  then show "c' = c" by (blast dest: steps_from_published)
next
  show r5: "run host 5 (Line1, [], w0) =
      (Exit (completion_of (script host w0)), events_of (script host w0),
       window_of (script host w0))"
    by (rule run_script)
  then show p5: "phase_of (run host 5 (Line1, [], w0)) = PUBLISHED" by simp
  have "run host (5 + n) (Line1, [], w0) = run host n (run host 5 (Line1, [], w0))"
    by (rule run_add)
  also from p5 have "\<dots> = run host 5 (Line1, [], w0)"
    by (simp add: run_stuck published_no_step)
  finally show "run host (5 + n) (Line1, [], w0) = run host 5 (Line1, [], w0)" .
qed

theorem published_is_terminal_witness:
  "step quiet_host (Line1, [], empty_window) = Some (Line2 [], [], empty_window) \<and>
   phase_of (Line1, [], empty_window) = UNPUBLISHED \<and>
   step quiet_host (Line5 load, [], empty_window) =
     Some (Exit Normal,
           [Read ''register_implementors'', Write ''pending_implementors'' (Object load)],
           empty_window(''pending_implementors'' := Object load)) \<and>
   phase_of (Exit Normal,
       [Read ''register_implementors'', Write ''pending_implementors'' (Object load)],
       empty_window(''pending_implementors'' := Object load)) = PUBLISHED \<and>
   step quiet_host (Exit Normal,
       [Read ''register_implementors'', Write ''pending_implementors'' (Object load)],
       empty_window(''pending_implementors'' := Object load)) = None \<and>
   run quiet_host 3 (Exit Normal,
       [Read ''register_implementors'', Write ''pending_implementors'' (Object load)],
       empty_window(''pending_implementors'' := Object load))
     = (Exit Normal,
        [Read ''register_implementors'', Write ''pending_implementors'' (Object load)],
        empty_window(''pending_implementors'' := Object load)) \<and>
   run quiet_host 5 (Line1, [], empty_window)
     = (Exit Normal,
        [Read ''register_implementors'', Write ''pending_implementors'' (Object load)],
        empty_window(''pending_implementors'' := Object load))"
proof -
  let ?done = "(Exit Normal,
       [Read ''register_implementors'', Write ''pending_implementors'' (Object load)],
       empty_window(''pending_implementors'' := Object load))"
  have s5: "step quiet_host (Line5 load, [], empty_window) = Some ?done"
    by (simp add: publish_def empty_window_def)
  have sc: "script quiet_host empty_window =
      (Normal,
       [Read ''register_implementors'', Write ''pending_implementors'' (Object load)],
       empty_window(''pending_implementors'' := Object load))"
    by (simp add: script_def publish_def empty_window_def)
  have first: "step quiet_host (Line1, [], empty_window) = Some (Line2 [], [], empty_window) \<and>
      phase_of (Line1, [], empty_window) = UNPUBLISHED"
    using published_is_terminal [of quiet_host "(Line1, [], empty_window)"
        "(Line2 [], [], empty_window)" 3 empty_window]
    by simp
  have last: "phase_of ?done = PUBLISHED"
    using s5 published_is_terminal [of quiet_host "(Line5 load, [], empty_window)" ?done 3
        empty_window]
    by simp
  have after: "step quiet_host ?done = None \<and> run quiet_host 3 ?done = ?done \<and>
      run quiet_host 5 (Line1, [], empty_window) = ?done"
    using published_is_terminal [of quiet_host ?done ?done 3 empty_window]
    by (simp add: sc completion_of_def events_of_def window_of_def)
  from first s5 last after show ?thesis
    by blast
qed

subsection \<open>Frame and determinism\<close>

text \<open>
  C9. The script reads one property of \<open>window\<close> and no other,
  \<open>register_implementors\<close>; it writes at most once, and then the property
  \<open>pending_implementors\<close>. Lines 1 to 4 touch neither the global object nor the
  events: \<open>implementors\<close> is a local variable. Where the script makes no call, every
  property other than \<open>pending_implementors\<close>, among them \<open>window.implementors\<close>,
  is after the run what it was before; where it calls the hook, the global object is as
  the hook left it, and the script has written nothing.
\<close>

theorem script_frame:
  "set (reads (events_of (script host w))) = {''register_implementors''} \<and>
   length (writes (events_of (script host w))) \<le> 1 \<and>
   set (map fst (writes (events_of (script host w)))) \<subseteq> {''pending_implementors''} \<and>
   run host 4 (Line1, es, w) = (Line5 load, es, w) \<and>
   (calls (events_of (script host w)) = [] \<and> name \<noteq> ''pending_implementors'' \<longrightarrow>
      window_of (script host w) name = w name) \<and>
   (calls (events_of (script host w)) = [] \<longrightarrow>
      window_of (script host w) ''implementors'' = w ''implementors'') \<and>
   (w ''register_implementors'' = Function f \<longrightarrow>
      writes (events_of (script host w)) = [] \<and>
      window_of (script host w) = snd (host f load w))"
proof -
  consider (absent) "\<not> truthy (w ''register_implementors'')"
    | (installed) g where "w ''register_implementors'' = Function g"
    | (other) "truthy (w ''register_implementors'')"
        "\<And>g. w ''register_implementors'' \<noteq> Function g"
    by blast
  then have "set (reads (events_of (script host w))) = {''register_implementors''} \<and>
      length (writes (events_of (script host w))) \<le> 1 \<and>
      set (map fst (writes (events_of (script host w)))) \<subseteq> {''pending_implementors''} \<and>
      (calls (events_of (script host w)) = [] \<and> name \<noteq> ''pending_implementors'' \<longrightarrow>
         window_of (script host w) name = w name) \<and>
      (calls (events_of (script host w)) = [] \<longrightarrow>
         window_of (script host w) ''implementors'' = w ''implementors'')"
  proof cases
    case absent
    then show ?thesis
      by (simp add: script_def publish_falsy events_of_def window_of_def)
  next
    case installed
    then show ?thesis
      by (simp add: script_def publish_function events_of_def window_of_def)
  next
    case other
    then show ?thesis
      by (simp add: script_def publish_not_callable events_of_def window_of_def)
  qed
  moreover have "run host 4 (Line1, es, w) = (Line5 load, es, w)"
    by (rule run_lines_1_to_4)
  moreover have "w ''register_implementors'' = Function f \<longrightarrow>
      writes (events_of (script host w)) = [] \<and>
      window_of (script host w) = snd (host f load w)"
    by (simp add: script_def publish_function events_of_def window_of_def)
  ultimately show ?thesis by blast
qed

theorem script_frame_witness:
  "calls (events_of (script quiet_host empty_window)) = [] \<and>
   ''implementors'' \<noteq> ''pending_implementors'' \<and>
   window_of (script quiet_host empty_window) ''implementors'' = Undefined \<and>
   writes (events_of (script quiet_host empty_window))
     = [(''pending_implementors'', Object load)] \<and>
   (empty_window(''register_implementors'' := Function 0)) ''register_implementors'' = Function 0 \<and>
   writes (events_of (script quiet_host (empty_window(''register_implementors'' := Function 0))))
     = [] \<and>
   window_of (script quiet_host (empty_window(''register_implementors'' := Function 0)))
     = empty_window(''register_implementors'' := Function 0)"
proof -
  have sc: "script quiet_host (\<lambda>name. Undefined) =
      (Normal,
       [Read ''register_implementors'', Write ''pending_implementors'' (Object load)],
       (\<lambda>name. Undefined)(''pending_implementors'' := Object load))"
    by (simp add: script_def publish_def)
  have absent: "calls (events_of (script quiet_host empty_window)) = [] \<and>
      ''implementors'' \<noteq> ''pending_implementors'' \<and>
      window_of (script quiet_host empty_window) ''implementors'' = Undefined \<and>
      writes (events_of (script quiet_host empty_window))
        = [(''pending_implementors'', Object load)]"
    using script_frame [of quiet_host empty_window "[]" "''implementors''" 0]
    by (simp add: sc events_of_def window_of_def empty_window_def)
  have installed:
    "(empty_window(''register_implementors'' := Function 0)) ''register_implementors'' = Function 0 \<and>
     writes (events_of (script quiet_host (empty_window(''register_implementors'' := Function 0))))
       = [] \<and>
     window_of (script quiet_host (empty_window(''register_implementors'' := Function 0)))
       = empty_window(''register_implementors'' := Function 0)"
    using script_frame [of quiet_host "empty_window(''register_implementors'' := Function 0)"
        "[]" "''implementors''" 0]
    by (simp add: quiet_host_def)
  from absent installed show ?thesis by blast
qed

text \<open>
  C10, as stated: two runs that start with the same hook and the same pending slot
  end with the same pending slot. It fails for an installed hook that reads another
  property of \<open>window\<close>: the two global objects below agree on
  \<open>register_implementors\<close> and on \<open>pending_implementors\<close> and differ on
  \<open>other\<close>, which the hook copies into the pending slot.
\<close>

theorem script_deterministic_counterexample:
  "(empty_window(''register_implementors'' := Function 0)) ''register_implementors''
     = (empty_window(''register_implementors'' := Function 0, ''other'' := Null))
         ''register_implementors'' \<and>
   (empty_window(''register_implementors'' := Function 0)) ''pending_implementors''
     = (empty_window(''register_implementors'' := Function 0, ''other'' := Null))
         ''pending_implementors'' \<and>
   window_of (script copying_host (empty_window(''register_implementors'' := Function 0)))
       ''pending_implementors''
     \<noteq> window_of (script copying_host
           (empty_window(''register_implementors'' := Function 0, ''other'' := Null)))
         ''pending_implementors''"
  by (simp add: script_def publish_def copying_host_def window_of_def empty_window_def)

text \<open>
  C10, amended. The script is deterministic up to the hook. Take two runs whose global
  objects agree on \<open>register_implementors\<close> and on \<open>pending_implementors\<close> and may
  differ elsewhere. The two runs make the same events: the same calls of the hook with
  the same arguments, the same reads, the same write. Where the property holds no
  function, so that no hook is called, the two runs also end the same way and with the
  same pending slot. Where it holds a function, each run ends as the call of the hook
  ends, and its final global object is the one the hook left.
\<close>

theorem script_deterministic:
  assumes "w1 ''register_implementors'' = w2 ''register_implementors''"
    and "w1 ''pending_implementors'' = w2 ''pending_implementors''"
  shows "events_of (script host w1) = events_of (script host w2) \<and>
         calls (events_of (script host w1)) = calls (events_of (script host w2)) \<and>
         ((\<forall>g. w1 ''register_implementors'' \<noteq> Function g) \<longrightarrow>
            completion_of (script host w1) = completion_of (script host w2) \<and>
            window_of (script host w1) ''pending_implementors''
              = window_of (script host w2) ''pending_implementors'') \<and>
         (w1 ''register_implementors'' = Function f \<longrightarrow>
            completion_of (script host w1) = (if fst (host f load w1) then HookThrew else Normal) \<and>
            completion_of (script host w2) = (if fst (host f load w2) then HookThrew else Normal) \<and>
            window_of (script host w1) = snd (host f load w1) \<and>
            window_of (script host w2) = snd (host f load w2))"
proof -
  consider (absent) "\<not> truthy (w1 ''register_implementors'')"
    | (installed) g where "w1 ''register_implementors'' = Function g"
    | (other) "truthy (w1 ''register_implementors'')"
        "\<And>g. w1 ''register_implementors'' \<noteq> Function g"
    by blast
  then show ?thesis
  proof cases
    case absent
    with assms(1) have "\<not> truthy (w2 ''register_implementors'')" by simp
    with absent show ?thesis
      by (auto simp: script_def publish_falsy completion_of_def events_of_def window_of_def)
  next
    case installed
    with assms(1) have "w2 ''register_implementors'' = Function g" by simp
    with installed show ?thesis
      by (simp add: script_def publish_function completion_of_def events_of_def window_of_def)
  next
    case other
    with assms(1) have "truthy (w2 ''register_implementors'')"
      and "\<And>g. w2 ''register_implementors'' \<noteq> Function g" by simp_all
    with other assms(2) show ?thesis
      by (simp add: script_def publish_not_callable completion_of_def events_of_def
          window_of_def)
  qed
qed

theorem script_deterministic_witness:
  "empty_window ''register_implementors''
     = (empty_window(''other'' := Null)) ''register_implementors'' \<and>
   empty_window ''pending_implementors''
     = (empty_window(''other'' := Null)) ''pending_implementors'' \<and>
   (\<forall>g. empty_window ''register_implementors'' \<noteq> Function g) \<and>
   events_of (script copying_host empty_window)
     = events_of (script copying_host (empty_window(''other'' := Null))) \<and>
   completion_of (script copying_host empty_window)
     = completion_of (script copying_host (empty_window(''other'' := Null))) \<and>
   window_of (script copying_host empty_window) ''pending_implementors''
     = window_of (script copying_host (empty_window(''other'' := Null)))
         ''pending_implementors'' \<and>
   (empty_window(''register_implementors'' := Function 0)) ''register_implementors''
     = (empty_window(''register_implementors'' := Function 0, ''other'' := Null))
         ''register_implementors'' \<and>
   events_of (script copying_host (empty_window(''register_implementors'' := Function 0)))
     = events_of (script copying_host
         (empty_window(''register_implementors'' := Function 0, ''other'' := Null))) \<and>
   window_of (script copying_host
       (empty_window(''register_implementors'' := Function 0, ''other'' := Null)))
       ''pending_implementors'' = Null"
proof -
  have agree: "empty_window ''register_implementors''
        = (empty_window(''other'' := Null)) ''register_implementors''"
      "empty_window ''pending_implementors''
        = (empty_window(''other'' := Null)) ''pending_implementors''"
      "\<forall>g. empty_window ''register_implementors'' \<noteq> Function g"
    by (simp_all add: empty_window_def)
  have absent: "events_of (script copying_host empty_window)
        = events_of (script copying_host (empty_window(''other'' := Null))) \<and>
      completion_of (script copying_host empty_window)
        = completion_of (script copying_host (empty_window(''other'' := Null))) \<and>
      window_of (script copying_host empty_window) ''pending_implementors''
        = window_of (script copying_host (empty_window(''other'' := Null)))
            ''pending_implementors''"
    using agree
      script_deterministic [of empty_window "empty_window(''other'' := Null)" copying_host 0]
    by simp
  have agree':
    "(empty_window(''register_implementors'' := Function 0)) ''register_implementors''
       = (empty_window(''register_implementors'' := Function 0, ''other'' := Null))
           ''register_implementors''"
    by simp
  have installed:
    "events_of (script copying_host (empty_window(''register_implementors'' := Function 0)))
       = events_of (script copying_host
           (empty_window(''register_implementors'' := Function 0, ''other'' := Null))) \<and>
     window_of (script copying_host
         (empty_window(''register_implementors'' := Function 0, ''other'' := Null)))
         ''pending_implementors'' = Null"
    using script_deterministic
      [of "empty_window(''register_implementors'' := Function 0)"
          "empty_window(''register_implementors'' := Function 0, ''other'' := Null)"
          copying_host 0]
    by (simp add: copying_host_def)
  from agree absent agree' installed show ?thesis
    by blast
qed

end
